theory Spec2Isabelle
  imports Complex_Main "HOL-Library.Word" "HOL-Library.Sublist" "HOL-Library.Multiset"
begin

section \<open>Strings and values of the JavaScript program\<close>

text \<open>
  A JavaScript string is a sequence of UTF-16 code units. The regular expressions of
  \<^verbatim>\<open>passwordLogic.js\<close> carry no flag, so they match code unit by code unit, and
  \<^verbatim>\<open>password.length\<close> counts code units.
\<close>

type_synonym jschar = "16 word"
type_synonym jsstring = "jschar list"

text \<open>
  The functions of \<^verbatim>\<open>passwordLogic.js\<close> start with \<^verbatim>\<open>if (!password) return 0\<close>:
  the argument is a string, or it is absent (\<^verbatim>\<open>undefined\<close>, \<^verbatim>\<open>null\<close>), here \<open>None\<close>.
  A string is falsy exactly when it is empty.
\<close>

definition falsy :: "jsstring option \<Rightarrow> bool" where
  "falsy password = (case password of None \<Rightarrow> True | Some s \<Rightarrow> s = [])"

section \<open>passwordLogic.js\<close>

subsection \<open>calculateL\<close>

definition calculateL :: "jsstring option \<Rightarrow> nat" where
  "calculateL password =
     (case password of
        None \<Rightarrow> 0
      | Some s \<Rightarrow> if falsy (Some s) then 0 else length s)"

subsection \<open>calculateN\<close>

text \<open>
  \<^verbatim>\<open>/[...]/.test(password)\<close> for a single character class: the scan moves through the
  string and succeeds at the first code unit of the class.
\<close>

fun regexTest :: "(jschar \<Rightarrow> bool) \<Rightarrow> jsstring \<Rightarrow> bool" where
  "regexTest cls [] = False"
| "regexTest cls (u # us) = (if cls u then True else regexTest cls us)"

text \<open>The classes \<^verbatim>\<open>[a-z]\<close>, \<^verbatim>\<open>[A-Z]\<close> and \<^verbatim>\<open>[0-9]\<close> are ranges of code units.\<close>

definition class_a_z :: "jschar \<Rightarrow> bool" where
  "class_a_z u = (0x61 \<le> u \<and> u \<le> 0x7A)"

definition class_A_Z :: "jschar \<Rightarrow> bool" where
  "class_A_Z u = (0x41 \<le> u \<and> u \<le> 0x5A)"

definition class_0_9 :: "jschar \<Rightarrow> bool" where
  "class_0_9 u = (0x30 \<le> u \<and> u \<le> 0x39)"

text \<open>
  The fourth class lists its members one by one, none of them a range (the hyphen, the
  brackets, the backslash and the slash are escaped). In the order of the source:
  space, backtick, exclamation mark, at sign, hash, dollar, percent, caret, ampersand,
  asterisk, the two parentheses, underscore, plus, hyphen, equals, the two square
  brackets, the two braces, semicolon, apostrophe, colon, double quote, backslash,
  vertical bar, comma, full stop, less-than, greater-than, slash, question mark, tilde.
\<close>

definition symbolClassChars :: "jschar list" where
  "symbolClassChars =
     [0x20, 0x60, 0x21, 0x40, 0x23, 0x24, 0x25, 0x5E, 0x26, 0x2A, 0x28, 0x29,
      0x5F, 0x2B, 0x2D, 0x3D, 0x5B, 0x5D, 0x7B, 0x7D, 0x3B, 0x27, 0x3A, 0x22,
      0x5C, 0x7C, 0x2C, 0x2E, 0x3C, 0x3E, 0x2F, 0x3F, 0x7E]"

definition class_symbol :: "jschar \<Rightarrow> bool" where
  "class_symbol u = (u \<in> set symbolClassChars)"

text \<open>
  \<^verbatim>\<open>nSize\<close> starts at 0 and each of the four tests, in the order of the source, adds
  its weight when it succeeds.
\<close>

definition calculateN :: "jsstring option \<Rightarrow> nat" where
  "calculateN password =
     (case password of
        None \<Rightarrow> 0
      | Some s \<Rightarrow>
          if falsy (Some s) then 0
          else
            let nSize = 0;
                nSize = (if regexTest class_a_z s then nSize + 26 else nSize);
                nSize = (if regexTest class_A_Z s then nSize + 26 else nSize);
                nSize = (if regexTest class_0_9 s then nSize + 10 else nSize);
                nSize = (if regexTest class_symbol s then nSize + 32 else nSize)
            in nSize)"

subsection \<open>calculateEntropy\<close>

text \<open>
  \<^verbatim>\<open>L\<close> and \<^verbatim>\<open>N\<close> are the results of \<open>calculateL\<close> and \<open>calculateN\<close>, natural
  numbers. JavaScript numbers are read as real numbers and \<^verbatim>\<open>Math.log2\<close> as the
  logarithm to base 2.
\<close>

definition calculateEntropy :: "nat \<Rightarrow> nat \<Rightarrow> real" where
  "calculateEntropy L N = (if N = 0 then 0 else real L * log 2 (real N))"

subsection \<open>checkPasswordStrength\<close>

text \<open>
  The labels of the program: \<open>Debil\<close> (weak), \<open>Fuerte\<close> (strong) and \<open>MuyFuerte\<close>
  (very strong) come from \<^verbatim>\<open>checkPasswordStrength\<close>; \<open>MuyDebilComun\<close> (very weak,
  common) and \<open>DebilPredecible\<close> (weak, predictable) are the two overrides of the
  request handler.
\<close>

datatype strength = Debil | Fuerte | MuyFuerte | MuyDebilComun | DebilPredecible

definition checkPasswordStrength :: "real \<Rightarrow> strength" where
  "checkPasswordStrength E =
     (if E < 60 then Debil
      else if E \<ge> 60 \<and> E < 80 then Fuerte
      else MuyFuerte)"

subsection \<open>calculateCrackTime\<close>

text \<open>
  \<^verbatim>\<open>x.toFixed(2)\<close> prints the number \<open>n / 100\<close> for the integer \<open>n\<close> closest to
  \<open>100 * x\<close>, the larger one in a tie; a negative \<open>x\<close> is printed as a minus sign and
  the digits of \<open>- x\<close>; from \<open>10 ^ 21\<close> on the number is printed as it is. \<open>toFixed2 x\<close>
  is the number printed.
\<close>

definition toFixed2 :: "real \<Rightarrow> real" where
  "toFixed2 x =
     (if \<bar>x\<bar> \<ge> 10 ^ 21 then x
      else if x < 0 then - (real_of_int \<lfloor>- x * 100 + 1 / 2\<rfloor> / 100)
      else real_of_int \<lfloor>x * 100 + 1 / 2\<rfloor> / 100)"

text \<open>
  The result is a template string. Each constructor is one template of the source:
  \<open>Instantaneo\<close> and \<open>MillonesDeAnos\<close> are the two fixed strings, \<open>Segundos\<close>,
  \<open>Minutos\<close>, \<open>Horas\<close> and \<open>Dias\<close> carry the number printed by \<^verbatim>\<open>toFixed(2)\<close>, and
  \<open>Anos\<close> carries the number handed to \<^verbatim>\<open>toLocaleString('es-MX')\<close>.
\<close>

datatype crackTime =
    Instantaneo
  | Segundos real
  | Minutos real
  | Horas real
  | Dias real
  | Anos real
  | MillonesDeAnos

definition calculateCrackTime :: "real \<Rightarrow> crackTime" where
  "calculateCrackTime E =
     (let attemptsPerSecond = 10 ^ 11;
          totalCombinations = 2 powr E;
          seconds = totalCombinations / attemptsPerSecond
      in if seconds < 1 then Instantaneo
         else if seconds < 60 then Segundos (toFixed2 seconds)
         else let minutes = seconds / 60
           in if minutes < 60 then Minutos (toFixed2 minutes)
              else let hours = minutes / 60
                in if hours < 24 then Horas (toFixed2 hours)
                   else let days = hours / 24
                     in if days < 365 then Dias (toFixed2 days)
                        else let years = days / 365
                          in if years < 10 ^ 6 then Anos years
                             else MillonesDeAnos)"

subsection \<open>findPartialMatch\<close>

text \<open>
  \<^verbatim>\<open>s.includes(t)\<close> looks for \<open>t\<close> at every position of \<open>s\<close>, from the left, and
  compares code units.
\<close>

fun includes' :: "jsstring \<Rightarrow> jsstring \<Rightarrow> bool" where
  "includes' [] t = (t = [])"
| "includes' (u # us) t = (if take (length t) (u # us) = t then True else includes' us t)"

definition MIN_LENGTH :: nat where
  "MIN_LENGTH = 5"

text \<open>
  The set of common passwords is a JavaScript \<^verbatim>\<open>Set\<close>, which a \<^verbatim>\<open>for ... of\<close> loop
  visits in insertion order: it is the list of its entries in that order.
  \<^verbatim>\<open>String.prototype.toLowerCase\<close> belongs to the engine, with the case mappings of
  Unicode; it is the parameter \<open>toLowerCase\<close>.
\<close>

fun findPartialMatch ::
  "(jsstring \<Rightarrow> jsstring) \<Rightarrow> jsstring \<Rightarrow> jsstring list \<Rightarrow> jsstring option" where
  "findPartialMatch toLowerCase password [] = None"
| "findPartialMatch toLowerCase password (commonPass # rest) =
     (if length commonPass \<ge> MIN_LENGTH \<and> includes' (toLowerCase password) commonPass
      then Some commonPass
      else findPartialMatch toLowerCase password rest)"

text \<open>
  On a string of ASCII code units the engine's \<^verbatim>\<open>toLowerCase\<close> moves the letters A to Z
  to a to z and keeps the rest. This instance is used to run the functions on
  ASCII examples.
\<close>

definition asciiToLowerCase :: "jsstring \<Rightarrow> jsstring" where
  "asciiToLowerCase s = map (\<lambda>u. if class_A_Z u then u + 0x20 else u) s"

section \<open>index.js: the handler of POST /api/v1/password/evaluate\<close>

text \<open>
  The value of a property of the parsed JSON body: \<open>JSUndefined\<close> when the property is
  absent, \<open>JSObject\<close> for any object or array.
\<close>

datatype jsvalue =
    JSUndefined
  | JSNull
  | JSBoolean bool
  | JSNumber real
  | JSString jsstring
  | JSObject

text \<open>
  \<^verbatim>\<open>req.body\<close> as the JSON middleware leaves it. \<open>JsonBody v\<close> is a parsed body whose
  property \<^verbatim>\<open>password\<close> has the value \<open>v\<close>. \<open>NoBody\<close> is \<^verbatim>\<open>req.body\<close> undefined:
  the request carried no JSON body and the middleware left the field unset, as
  Express 5 does (Express 4 puts an empty object there, which is
  \<open>JsonBody JSUndefined\<close>); the version of Express is not fixed by the repository.
\<close>

datatype request_body = NoBody | JsonBody jsvalue

text \<open>The exception that destructuring \<^verbatim>\<open>undefined\<close> throws.\<close>

datatype error = TypeError

datatype jstype = TUndefined | TObject | TBoolean | TNumber | TString

fun typeof :: "jsvalue \<Rightarrow> jstype" where
  "typeof JSUndefined = TUndefined"
| "typeof JSNull = TObject"
| "typeof (JSBoolean b) = TBoolean"
| "typeof (JSNumber x) = TNumber"
| "typeof (JSString s) = TString"
| "typeof JSObject = TObject"

text \<open>\<^verbatim>\<open>!v\<close> holds for the falsy values; a number parsed from JSON is never NaN.\<close>

fun truthy :: "jsvalue \<Rightarrow> bool" where
  "truthy JSUndefined = False"
| "truthy JSNull = False"
| "truthy (JSBoolean b) = b"
| "truthy (JSNumber x) = (x \<noteq> 0)"
| "truthy (JSString s) = (s \<noteq> [])"
| "truthy JSObject = True"

text \<open>
  The functions the handler calls, recorded in the order of the calls:
  \<open>SetHas\<close> is \<^verbatim>\<open>commonPasswords.has(password)\<close>.
\<close>

datatype call =
    CalculateL
  | CalculateN
  | CalculateEntropy
  | CheckPasswordStrength
  | CalculateCrackTime
  | SetHas
  | FindPartialMatch

text \<open>
  The recommendation is one of three texts, the last with the partial match
  interpolated; the crack time of the response is a fixed text for a common password
  and the estimate otherwise.
\<close>

datatype recommendation =
    BuenaContrasena
  | ContrasenaComun
  | ContienePalabraComun "jsstring option"

datatype crackTimeTip = InstantaneoFiltraciones | Estimado crackTime

record evaluation =
  length' :: nat
  keyspace :: nat
  entropy :: real
  strength :: strength
  isCommon :: bool
  containedCommonWord :: "jsstring option"

record security_tips =
  estimatedCrackTime :: crackTimeTip
  recommendation :: recommendation

text \<open>
  The JSON body: the fixed error object, or the object with the masked password,
  \<^verbatim>\<open>evaluation\<close> and \<^verbatim>\<open>security_tips\<close>.
\<close>

datatype body =
    ErrorBody
  | EvaluationBody (evaluation: evaluation) (security_tips: security_tips)

record response =
  status :: nat
  body :: body

text \<open>
  Lines 137 to 179 of the handler, for a password that passed the guard. The locals
  \<^verbatim>\<open>strength\<close>, \<^verbatim>\<open>isCommon\<close> and \<^verbatim>\<open>recommendation\<close> of the source carry a 0 here,
  the fields of the response having the same names; the field \<^verbatim>\<open>entropy\<close> is
  \<^verbatim>\<open>parseFloat(entropy.toFixed(2))\<close>, the number that \<^verbatim>\<open>toFixed(2)\<close> prints.
\<close>

definition evaluatePassword ::
  "(jsstring \<Rightarrow> jsstring) \<Rightarrow> jsstring list \<Rightarrow> jsstring \<Rightarrow> call list \<times> response" where
  "evaluatePassword toLowerCase commonPasswords password =
     (let L = calculateL (Some password);
          N = calculateN (Some password);
          E = calculateEntropy L N;
          strength0 = checkPasswordStrength E;
          crackTime = calculateCrackTime E;
          isCommon0 = (password \<in> set commonPasswords);
          calls = [CalculateL, CalculateN, CalculateEntropy, CheckPasswordStrength,
                   CalculateCrackTime, SetHas];
          (finalStrength, recommendation0, partialMatch, calls) =
            (if isCommon0 then (MuyDebilComun, ContrasenaComun, None, calls)
             else
               let partialMatch = findPartialMatch toLowerCase password commonPasswords;
                   calls = calls @ [FindPartialMatch]
               in if \<not> falsy partialMatch
                  then (DebilPredecible, ContienePalabraComun partialMatch, partialMatch, calls)
                  else (strength0, BuenaContrasena, partialMatch, calls))
      in (calls,
          \<lparr>status = 200,
           body = EvaluationBody
             \<lparr>length' = L,
              keyspace = N,
              entropy = toFixed2 E,
              strength = finalStrength,
              isCommon = isCommon0,
              containedCommonWord = partialMatch\<rparr>
             \<lparr>estimatedCrackTime =
                (if isCommon0 then InstantaneoFiltraciones else Estimado crackTime),
              recommendation = recommendation0\<rparr>\<rparr>))"

text \<open>
  The handler. Line 131, \<^verbatim>\<open>const { password } = req.body\<close>, comes first: it throws a
  \<^verbatim>\<open>TypeError\<close> when \<^verbatim>\<open>req.body\<close> is undefined, and the handler ends there without a
  response of its own. Otherwise the guard of line 133 answers 400 with the fixed error
  body before anything is called; past the guard the password is a non-empty string.
\<close>

definition evaluateHandler ::
  "(jsstring \<Rightarrow> jsstring) \<Rightarrow> jsstring list \<Rightarrow> request_body
     \<Rightarrow> error + call list \<times> response" where
  "evaluateHandler toLowerCase commonPasswords reqBody =
     (case reqBody of
        NoBody \<Rightarrow> Inl TypeError
      | JsonBody password \<Rightarrow>
          if \<not> truthy password \<or> typeof password \<noteq> TString
          then Inr ([], \<lparr>status = 400, body = ErrorBody\<rparr>)
          else case password of
                 JSString s \<Rightarrow> Inr (evaluatePassword toLowerCase commonPasswords s))"

section \<open>The specification's notions\<close>

subsection \<open>The character classes as the specification words them\<close>

text \<open>
  The specification speaks of lowercase letters, uppercase letters, digits and a fixed
  set of symbols, each present or not in the password. These definitions follow its
  words; the theorems below compare them with the regular expressions of the source.
\<close>

definition lowercaseLetters :: "jschar set" where
  "lowercaseLetters = {0x61 .. 0x7A}"

definition uppercaseLetters :: "jschar set" where
  "uppercaseLetters = {0x41 .. 0x5A}"

definition digits :: "jschar set" where
  "digits = {0x30 .. 0x39}"

text \<open>
  The symbol set in the order the specification prints it (backtick, exclamation mark,
  at sign, ... , slash, question mark, tilde), and the space it adds.
\<close>

definition fixedSymbols :: "jschar set" where
  "fixedSymbols =
     {0x60, 0x21, 0x40, 0x23, 0x24, 0x25, 0x5E, 0x26, 0x2A, 0x28, 0x29, 0x5F,
      0x2B, 0x2D, 0x3D, 0x5B, 0x5D, 0x7B, 0x7D, 0x3B, 0x27, 0x3A, 0x22, 0x5C,
      0x7C, 0x2C, 0x2E, 0x3C, 0x3E, 0x2F, 0x3F, 0x7E} \<union> {0x20}"

definition containsClass :: "jschar set \<Rightarrow> jsstring \<Rightarrow> bool" where
  "containsClass cls s = (\<exists>u \<in> set s. u \<in> cls)"

definition contribution :: "jschar set \<Rightarrow> nat \<Rightarrow> jsstring \<Rightarrow> nat" where
  "contribution cls w s = (if containsClass cls s then w else 0)"

text \<open>
  The four tests of the source as a list, and the accumulation of \<^verbatim>\<open>nSize\<close> run over
  such a list in the order given: this is what \<open>calculateN\<close> would compute with its
  \<^verbatim>\<open>if\<close> statements rearranged.
\<close>

definition classTests :: "((jschar \<Rightarrow> bool) \<times> nat) list" where
  "classTests = [(class_a_z, 26), (class_A_Z, 26), (class_0_9, 10), (class_symbol, 32)]"

definition testInOrder :: "((jschar \<Rightarrow> bool) \<times> nat) list \<Rightarrow> jsstring \<Rightarrow> nat" where
  "testInOrder tests s =
     foldl (\<lambda>nSize (cls, w). if regexTest cls s then nSize + w else nSize) 0 tests"

subsection \<open>Partial matches and invalid input as the specification words them\<close>

text \<open>
  An entry qualifies for a partial match when it has at least five code units and
  occurs as a contiguous part of the lowercased password.
\<close>

definition qualifies :: "(jsstring \<Rightarrow> jsstring) \<Rightarrow> jsstring \<Rightarrow> jsstring \<Rightarrow> bool" where
  "qualifies toLowerCase password entry =
     (5 \<le> length entry \<and> sublist entry (toLowerCase password))"



section \<open>Properties of calculateN\<close>

lemma regexTest_iff: "regexTest cls s \<longleftrightarrow> (\<exists>u \<in> set s. cls u)"
  by (induction s) auto

lemma class_a_z_iff: "class_a_z u \<longleftrightarrow> u \<in> lowercaseLetters"
  by (simp add: class_a_z_def lowercaseLetters_def)

lemma class_A_Z_iff: "class_A_Z u \<longleftrightarrow> u \<in> uppercaseLetters"
  by (simp add: class_A_Z_def uppercaseLetters_def)

lemma class_0_9_iff: "class_0_9 u \<longleftrightarrow> u \<in> digits"
  by (simp add: class_0_9_def digits_def)

lemma class_symbol_iff: "class_symbol u \<longleftrightarrow> u \<in> fixedSymbols"
  unfolding class_symbol_def symbolClassChars_def fixedSymbols_def
  by (simp only: set_simps Un_iff insert_iff empty_iff) blast

lemma regexTest_contains:
  "regexTest class_a_z s = containsClass lowercaseLetters s"
  "regexTest class_A_Z s = containsClass uppercaseLetters s"
  "regexTest class_0_9 s = containsClass digits s"
  "regexTest class_symbol s = containsClass fixedSymbols s"
  by (simp_all add: regexTest_iff containsClass_def class_a_z_iff class_A_Z_iff
      class_0_9_iff class_symbol_iff)

lemma calculateN_Some:
  "calculateN (Some s) =
     contribution lowercaseLetters 26 s + contribution uppercaseLetters 26 s +
     contribution digits 10 s + contribution fixedSymbols 32 s"
proof (cases "s = []")
  case True
  then show ?thesis
    by (simp add: calculateN_def falsy_def contribution_def containsClass_def)
next
  case False
  then show ?thesis
    by (simp add: calculateN_def falsy_def contribution_def regexTest_contains)
qed

lemma foldl_tests_acc:
  "foldl (\<lambda>nSize (cls, w). if regexTest cls s then nSize + w else nSize) (a::nat) tests =
     a + sum_list (map (\<lambda>(cls, w). if regexTest cls s then w else 0) tests)"
  by (induction tests arbitrary: a) (auto simp: case_prod_beta)

lemma testInOrder_sum_mset:
  "testInOrder tests s =
     sum_mset (image_mset (\<lambda>(cls, w). if regexTest cls s then w else 0) (mset tests))"
proof -
  have "testInOrder tests s =
      sum_list (map (\<lambda>(cls, w). if regexTest cls s then w else 0) tests)"
    by (simp add: testInOrder_def foldl_tests_acc)
  also have "\<dots> = sum_mset (mset (map (\<lambda>(cls, w). if regexTest cls s then w else 0) tests))"
    by (simp only: sum_mset_sum_list)
  finally show ?thesis by simp
qed

lemma testInOrder_classTests: "testInOrder classTests s = calculateN (Some s)"
  by (simp add: testInOrder_def classTests_def calculateN_Some contribution_def
      regexTest_contains)

lemma nat_cases_32_47:
  "(32::nat) \<le> n \<Longrightarrow> n \<le> 47 \<Longrightarrow>
     n \<in> {32, 33, 34, 35, 36, 37, 38, 39, 40, 41, 42, 43, 44, 45, 46, 47}"
  by (simp; arith)

lemma nat_cases_58_64: "(58::nat) \<le> n \<Longrightarrow> n \<le> 64 \<Longrightarrow> n \<in> {58, 59, 60, 61, 62, 63, 64}"
  by (simp; arith)

lemma nat_cases_91_96: "(91::nat) \<le> n \<Longrightarrow> n \<le> 96 \<Longrightarrow> n \<in> {91, 92, 93, 94, 95, 96}"
  by (simp; arith)

lemma nat_cases_123_126: "(123::nat) \<le> n \<Longrightarrow> n \<le> 126 \<Longrightarrow> n \<in> {123, 124, 125, 126}"
  by (simp; arith)

text \<open>The four classes together are the printable ASCII characters, space to tilde.\<close>

lemma printable_in_class:
  fixes u :: jschar
  assumes "0x20 \<le> u" "u \<le> 0x7E"
  shows "class_a_z u \<or> class_A_Z u \<or> class_0_9 u \<or> class_symbol u"
proof -
  define n where "n = unat u"
  have n: "32 \<le> n" "n \<le> 126"
    using assms by (simp_all add: n_def word_le_nat_alt)
  have u: "u = of_nat n"
    by (simp add: n_def)
  consider "n \<le> 47" | "48 \<le> n \<and> n \<le> 57" | "58 \<le> n \<and> n \<le> 64"
    | "65 \<le> n \<and> n \<le> 90" | "91 \<le> n \<and> n \<le> 96" | "97 \<le> n \<and> n \<le> 122" | "123 \<le> n"
    by linarith
  then show ?thesis
  proof cases
    case 1
    with n nat_cases_32_47 [of n] show ?thesis
      unfolding u class_symbol_def symbolClassChars_def by auto
  next
    case 2
    then have "class_0_9 u"
      by (simp add: class_0_9_def word_le_nat_alt n_def)
    then show ?thesis by simp
  next
    case 3
    with nat_cases_58_64 [of n] show ?thesis
      unfolding u class_symbol_def symbolClassChars_def by auto
  next
    case 4
    then have "class_A_Z u"
      by (simp add: class_A_Z_def word_le_nat_alt n_def)
    then show ?thesis by simp
  next
    case 5
    with nat_cases_91_96 [of n] show ?thesis
      unfolding u class_symbol_def symbolClassChars_def by auto
  next
    case 6
    then have "class_a_z u"
      by (simp add: class_a_z_def word_le_nat_alt n_def)
    then show ?thesis by simp
  next
    case 7
    with n nat_cases_123_126 [of n] show ?thesis
      unfolding u class_symbol_def symbolClassChars_def by auto
  qed
qed

lemma class_printable:
  fixes u :: jschar
  assumes "class_a_z u \<or> class_A_Z u \<or> class_0_9 u \<or> class_symbol u"
  shows "0x20 \<le> u \<and> u \<le> 0x7E"
  using assms
  unfolding class_a_z_def class_A_Z_def class_0_9_def class_symbol_def symbolClassChars_def
  by (auto simp: word_le_nat_alt)

lemma calculateN_eq_0_iff:
  "calculateN (Some s) = 0 \<longleftrightarrow>
     (\<forall>u \<in> set s. \<not> (class_a_z u \<or> class_A_Z u \<or> class_0_9 u \<or> class_symbol u))"
proof (cases "s = []")
  case True
  then show ?thesis
    by (simp add: calculateN_def falsy_def)
next
  case False
  then show ?thesis
    by (auto simp: calculateN_def falsy_def regexTest_iff Let_def)
qed

text \<open>
  C1. For a non-empty password, \<open>calculateN\<close> is the sum of the contributions of the
  classes present in it: 26 for a lowercase letter, 26 for an uppercase letter, 10 for a
  digit, 32 for a character of the fixed symbol set (space included). With all four
  classes present the result is 94, and running the four tests in any other order gives
  the same result.
\<close>

theorem calculateN_sum_of_present_classes:
  "password \<noteq> [] \<Longrightarrow>
     calculateN (Some password) =
       contribution lowercaseLetters 26 password + contribution uppercaseLetters 26 password +
       contribution digits 10 password + contribution fixedSymbols 32 password
     \<and> (containsClass lowercaseLetters password \<and> containsClass uppercaseLetters password \<and>
        containsClass digits password \<and> containsClass fixedSymbols password
        \<longrightarrow> calculateN (Some password) = 94)
     \<and> (\<forall>tests. mset tests = mset classTests
          \<longrightarrow> testInOrder tests password = calculateN (Some password))"
proof (intro conjI allI impI)
  show "calculateN (Some password) =
       contribution lowercaseLetters 26 password + contribution uppercaseLetters 26 password +
       contribution digits 10 password + contribution fixedSymbols 32 password"
    by (rule calculateN_Some)
next
  assume "containsClass lowercaseLetters password \<and> containsClass uppercaseLetters password \<and>
        containsClass digits password \<and> containsClass fixedSymbols password"
  then show "calculateN (Some password) = 94"
    by (simp add: calculateN_Some contribution_def)
next
  fix tests :: "((jschar \<Rightarrow> bool) \<times> nat) list"
  assume "mset tests = mset classTests"
  then have "testInOrder tests password = testInOrder classTests password"
    by (simp only: testInOrder_sum_mset)
  then show "testInOrder tests password = calculateN (Some password)"
    by (simp only: testInOrder_classTests)
qed

text \<open>
  The password \<^verbatim>\<open>aB3!\<close> has all four classes, \<^verbatim>\<open>a3\<close> two of them; the tests of the
  first are also run in the reverse order.
\<close>

theorem calculateN_sum_of_present_classes_witness:
  "[0x61, 0x42, 0x33, 0x21] \<noteq> ([] :: jsstring)
   \<and> calculateN (Some [0x61, 0x42, 0x33, 0x21]) = 26 + 26 + 10 + 32
   \<and> calculateN (Some [0x61, 0x33]) = 26 + 10
   \<and> testInOrder (rev classTests) [0x61, 0x42, 0x33, 0x21] = 94"
proof -
  have ne: "[0x61, 0x42, 0x33, 0x21] \<noteq> ([] :: jsstring)" "[0x61, 0x33] \<noteq> ([] :: jsstring)"
    by simp_all
  have perm: "mset (rev classTests) = mset classTests"
    by simp
  show ?thesis
    using calculateN_sum_of_present_classes [OF ne(1)]
      calculateN_sum_of_present_classes [OF ne(2)] perm
    by (simp add: contribution_def containsClass_def lowercaseLetters_def
        uppercaseLetters_def digits_def fixedSymbols_def)
qed

text \<open>
  C7 as stated: every non-empty password has a keyspace above 0. The one-character
  password U+00F1 (n with tilde) is not empty and belongs to none of the four classes:
  its keyspace is 0.
\<close>

theorem calculateN_nonempty_counterexample:
  "[0xF1] \<noteq> ([] :: jsstring) \<and> \<not> falsy (Some [0xF1]) \<and> \<not> 0 < calculateN (Some [0xF1])"
  by (simp add: calculateN_def falsy_def class_a_z_def class_A_Z_def class_0_9_def
      class_symbol_def symbolClassChars_def)

text \<open>
  C7, amended. The keyspace is 0 exactly when the input is absent, empty, or has no
  character in any of the four classes; the four classes together are the printable
  ASCII characters U+0020 to U+007E, so every password with at least one printable
  ASCII character has a keyspace above 0.
\<close>

theorem calculateN_zero_iff_no_class:
  "calculateN None = 0
   \<and> (calculateN (Some s) = 0 \<longleftrightarrow>
        (\<forall>u \<in> set s. u \<notin> lowercaseLetters \<union> uppercaseLetters \<union> digits \<union> fixedSymbols))
   \<and> lowercaseLetters \<union> uppercaseLetters \<union> digits \<union> fixedSymbols = {0x20 .. 0x7E}
   \<and> ((\<exists>u \<in> set s. 0x20 \<le> u \<and> u \<le> 0x7E) \<longrightarrow> 0 < calculateN (Some s))"
proof -
  have classes: "lowercaseLetters \<union> uppercaseLetters \<union> digits \<union> fixedSymbols = {0x20 .. 0x7E}"
  proof (rule set_eqI)
    fix u :: jschar
    have "u \<in> lowercaseLetters \<union> uppercaseLetters \<union> digits \<union> fixedSymbols
        \<longleftrightarrow> class_a_z u \<or> class_A_Z u \<or> class_0_9 u \<or> class_symbol u"
      by (simp add: class_a_z_iff class_A_Z_iff class_0_9_iff class_symbol_iff)
    also have "\<dots> \<longleftrightarrow> 0x20 \<le> u \<and> u \<le> 0x7E"
      using printable_in_class [of u] class_printable [of u] by blast
    finally show "u \<in> lowercaseLetters \<union> uppercaseLetters \<union> digits \<union> fixedSymbols
        \<longleftrightarrow> u \<in> {0x20 .. 0x7E}"
      by simp
  qed
  have zero: "calculateN (Some s) = 0 \<longleftrightarrow>
      (\<forall>u \<in> set s. u \<notin> lowercaseLetters \<union> uppercaseLetters \<union> digits \<union> fixedSymbols)"
    by (simp add: calculateN_eq_0_iff class_a_z_iff class_A_Z_iff class_0_9_iff
        class_symbol_iff)
  have pos: "(\<exists>u \<in> set s. 0x20 \<le> u \<and> u \<le> 0x7E) \<longrightarrow> 0 < calculateN (Some s)"
  proof
    assume "\<exists>u \<in> set s. 0x20 \<le> u \<and> u \<le> 0x7E"
    then have "\<not> (\<forall>u \<in> set s. u \<notin> lowercaseLetters \<union> uppercaseLetters \<union> digits \<union> fixedSymbols)"
      unfolding classes by auto
    with zero have "calculateN (Some s) \<noteq> 0"
      by blast
    then show "0 < calculateN (Some s)"
      by simp
  qed
  have "calculateN None = 0"
    by (simp add: calculateN_def)
  with zero classes pos show ?thesis
    by blast
qed

text \<open>A tab alone gives 0; a tilde followed by U+00F1 gives a keyspace above 0.\<close>

theorem calculateN_zero_iff_no_class_witness:
  "calculateN (Some [0x09]) = 0 \<and> 0 < calculateN (Some [0x7E, 0xF1])"
proof -
  have a: "\<forall>u \<in> set [0x09 :: jschar].
      u \<notin> lowercaseLetters \<union> uppercaseLetters \<union> digits \<union> fixedSymbols"
    by (simp add: lowercaseLetters_def uppercaseLetters_def digits_def fixedSymbols_def)
  have b: "\<exists>u \<in> set [0x7E, 0xF1 :: jschar]. 0x20 \<le> u \<and> u \<le> 0x7E"
    by simp
  from a b show ?thesis
    using calculateN_zero_iff_no_class [of "[0x09]"]
      calculateN_zero_iff_no_class [of "[0x7E, 0xF1]"]
    by blast
qed

section \<open>Properties of calculateEntropy\<close>

text \<open>
  C2. \<open>calculateEntropy\<close> returns 0 when the keyspace is 0 and otherwise the length
  times the logarithm to base 2 of the keyspace, which is not negative; so the entropy
  computed from the length and the keyspace of any input is not negative.
\<close>

theorem calculateEntropy_zero_or_product:
  "calculateEntropy L 0 = 0
   \<and> (1 \<le> N \<longrightarrow> calculateEntropy L N = real L * log 2 (real N) \<and> 0 \<le> calculateEntropy L N)
   \<and> 0 \<le> calculateEntropy (calculateL password) (calculateN password)"
proof -
  have nonneg: "0 \<le> calculateEntropy l n" for l n
  proof (cases "n = 0")
    case True
    then show ?thesis by (simp add: calculateEntropy_def)
  next
    case False
    then have "1 \<le> real n" by simp
    then have "0 \<le> log 2 (real n)" by simp
    then show ?thesis using False by (simp add: calculateEntropy_def)
  qed
  show ?thesis
    using nonneg by (simp add: calculateEntropy_def)
qed

text \<open>Length 3 over a keyspace of 8 gives 9 bits.\<close>

theorem calculateEntropy_zero_or_product_witness:
  "(1::nat) \<le> 8 \<and> calculateEntropy 3 8 = 9 \<and> calculateEntropy 3 0 = 0"
proof -
  have "log 2 (real 8) = log 2 (2 ^ 3)" by simp
  also have "\<dots> = 3" by (subst log_pow_cancel) simp_all
  finally have l: "log 2 (real 8) = 3" .
  show ?thesis
    using calculateEntropy_zero_or_product [of 3 8] calculateEntropy_zero_or_product [of 3 0] l
    by simp
qed

text \<open>
  C8. For a fixed keyspace the entropy does not decrease when the length grows, and for
  a fixed length it does not decrease when the keyspace grows.
\<close>

theorem calculateEntropy_monotone:
  "(L \<le> L' \<longrightarrow> calculateEntropy L N \<le> calculateEntropy L' N)
   \<and> (N \<le> N' \<longrightarrow> calculateEntropy L N \<le> calculateEntropy L N')"
proof (intro conjI impI)
  assume le: "L \<le> L'"
  show "calculateEntropy L N \<le> calculateEntropy L' N"
  proof (cases "N = 0")
    case True
    then show ?thesis by (simp add: calculateEntropy_def)
  next
    case False
    then have "0 \<le> log 2 (real N)" by simp
    moreover from le have "real L \<le> real L'" by simp
    ultimately have "real L * log 2 (real N) \<le> real L' * log 2 (real N)"
      by (rule mult_right_mono [rotated])
    with False show ?thesis by (simp add: calculateEntropy_def)
  qed
next
  assume le: "N \<le> N'"
  show "calculateEntropy L N \<le> calculateEntropy L N'"
  proof (cases "N = 0")
    case True
    have "0 \<le> calculateEntropy L N'"
    proof (cases "N' = 0")
      case True
      then show ?thesis by (simp add: calculateEntropy_def)
    next
      case False
      then have "0 \<le> log 2 (real N')" by simp
      with False show ?thesis by (simp add: calculateEntropy_def)
    qed
    with True show ?thesis by (simp add: calculateEntropy_def)
  next
    case False
    with le have pos: "0 < real N" "0 < real N'" "real N \<le> real N'" by simp_all
    then have "log 2 (real N) \<le> log 2 (real N')" by simp
    then have "real L * log 2 (real N) \<le> real L * log 2 (real N')"
      by (rule mult_left_mono) simp
    with False le show ?thesis by (simp add: calculateEntropy_def)
  qed
qed

text \<open>Lengths 3 and 5 over 26 symbols; length 3 over 26 and over 94 symbols.\<close>

theorem calculateEntropy_monotone_witness:
  "(3::nat) \<le> 5 \<and> calculateEntropy 3 26 \<le> calculateEntropy 5 26
   \<and> (26::nat) \<le> 94 \<and> calculateEntropy 3 26 \<le> calculateEntropy 3 94"
  using calculateEntropy_monotone [of 3 5 26] calculateEntropy_monotone [of 26 94 3]
  by simp

section \<open>Properties of checkPasswordStrength\<close>

text \<open>
  C3. An entropy below 60 is classified \<open>Debil\<close> (weak), from 60 and below 80
  \<open>Fuerte\<close> (strong), from 80 on \<open>MuyFuerte\<close> (very strong); the boundaries 60 and 80
  themselves fall into the upper class.
\<close>

theorem checkPasswordStrength_thresholds:
  "(E < 60 \<longrightarrow> checkPasswordStrength E = Debil)
   \<and> (60 \<le> E \<and> E < 80 \<longrightarrow> checkPasswordStrength E = Fuerte)
   \<and> (80 \<le> E \<longrightarrow> checkPasswordStrength E = MuyFuerte)
   \<and> checkPasswordStrength 60 = Fuerte
   \<and> checkPasswordStrength 80 = MuyFuerte"
  by (simp add: checkPasswordStrength_def)

text \<open>The values just below 60, just below 80 and just above 80.\<close>

theorem checkPasswordStrength_thresholds_witness:
  "checkPasswordStrength 59.999 = Debil \<and> checkPasswordStrength 79.999 = Fuerte
   \<and> checkPasswordStrength 80.001 = MuyFuerte"
  using checkPasswordStrength_thresholds [of "59.999"] checkPasswordStrength_thresholds [of "79.999"]
    checkPasswordStrength_thresholds [of "80.001"]
  by simp

section \<open>Properties of calculateCrackTime\<close>

text \<open>
  C4. With \<open>seconds = 2 powr E / 10 ^ 11\<close>, the estimate is the first of these that
  applies: \<open>Instantaneo\<close> below one second; the seconds with two decimals below 60
  seconds; the minutes with two decimals below 60 minutes; the hours with two decimals
  below 24 hours; the days with two decimals below 365 days; the years in the locale's
  format below a million years; \<open>MillonesDeAnos\<close>, without a number, beyond.
\<close>

theorem calculateCrackTime_buckets:
  "(let seconds = 2 powr E / 10 ^ 11;
        minutes = seconds / 60;
        hours = minutes / 60;
        days = hours / 24;
        years = days / 365
    in (seconds < 1 \<longrightarrow> calculateCrackTime E = Instantaneo)
     \<and> (\<not> seconds < 1 \<and> seconds < 60 \<longrightarrow> calculateCrackTime E = Segundos (toFixed2 seconds))
     \<and> (\<not> seconds < 60 \<and> minutes < 60 \<longrightarrow> calculateCrackTime E = Minutos (toFixed2 minutes))
     \<and> (\<not> minutes < 60 \<and> hours < 24 \<longrightarrow> calculateCrackTime E = Horas (toFixed2 hours))
     \<and> (\<not> hours < 24 \<and> days < 365 \<longrightarrow> calculateCrackTime E = Dias (toFixed2 days))
     \<and> (\<not> days < 365 \<and> years < 10 ^ 6 \<longrightarrow> calculateCrackTime E = Anos years)
     \<and> (\<not> years < 10 ^ 6 \<longrightarrow> calculateCrackTime E = MillonesDeAnos))"
proof -
  define s where "s = 2 powr E / 10 ^ 11"
  have pos: "0 < s" by (simp add: s_def)
  have nest: "s < 1 \<Longrightarrow> s < 60" "s < 60 \<Longrightarrow> s / 60 < 60" "s / 60 < 60 \<Longrightarrow> s / 60 / 60 < 24"
    "s / 60 / 60 < 24 \<Longrightarrow> s / 60 / 60 / 24 < 365"
    "s / 60 / 60 / 24 < 365 \<Longrightarrow> s / 60 / 60 / 24 / 365 < 10 ^ 6"
    using pos by simp_all
  show ?thesis
    unfolding Let_def calculateCrackTime_def s_def [symmetric]
    using nest by auto
qed

text \<open>One entropy for each of the seven branches.\<close>

theorem calculateCrackTime_buckets_witness:
  "calculateCrackTime 36 = Instantaneo
   \<and> calculateCrackTime 37 = Segundos 1.37
   \<and> calculateCrackTime 43 = Minutos 1.47
   \<and> calculateCrackTime 50 = Horas 3.13
   \<and> calculateCrackTime 55 = Dias 4.17
   \<and> calculateCrackTime 70 = Anos (2 ^ 70 / (10 ^ 11 * 60 * 60 * 24 * 365))
   \<and> calculateCrackTime 100 = MillonesDeAnos"
proof -
  have f37: "toFixed2 (2 powr 37 / 10 ^ 11) = 1.37"
    by (simp add: toFixed2_def floor_eq_iff)
  have f43: "toFixed2 (2 powr 43 / 10 ^ 11 / 60) = 1.47"
    by (simp add: toFixed2_def floor_eq_iff)
  have f50: "toFixed2 (2 powr 50 / 10 ^ 11 / 60 / 60) = 3.13"
    by (simp add: toFixed2_def floor_eq_iff)
  have f55: "toFixed2 (2 powr 55 / 10 ^ 11 / 60 / 60 / 24) = 4.17"
    by (simp add: toFixed2_def floor_eq_iff)
  show ?thesis
    using calculateCrackTime_buckets [of 36] calculateCrackTime_buckets [of 37]
      calculateCrackTime_buckets [of 43] calculateCrackTime_buckets [of 50]
      calculateCrackTime_buckets [of 55] calculateCrackTime_buckets [of 70]
      calculateCrackTime_buckets [of 100] f37 f43 f50 f55
    by (simp add: Let_def)
qed

section \<open>Properties of findPartialMatch\<close>

lemma includes'_iff_sublist: "includes' s t \<longleftrightarrow> sublist t s"
proof (induction s)
  case Nil
  then show ?case by simp
next
  case (Cons u us)
  have "prefix t (u # us) \<longleftrightarrow> take (length t) (u # us) = t"
    by (metis prefix_def append_eq_conv_conj append_take_drop_id)
  with Cons show ?case
    by (simp add: sublist_Cons_right)
qed

lemma findPartialMatch_step:
  "findPartialMatch toLowerCase password (e # rest) =
     (if qualifies toLowerCase password e then Some e
      else findPartialMatch toLowerCase password rest)"
  by (simp add: qualifies_def MIN_LENGTH_def includes'_iff_sublist)

lemma findPartialMatch_None_iff:
  "findPartialMatch toLowerCase password corpus = None \<longleftrightarrow>
     (\<forall>e \<in> set corpus. \<not> qualifies toLowerCase password e)"
  by (induction corpus) (simp_all only: findPartialMatch.simps(1) findPartialMatch_step, auto)

lemma findPartialMatch_skip:
  "\<forall>e \<in> set before. \<not> qualifies toLowerCase password e \<Longrightarrow>
     findPartialMatch toLowerCase password (before @ rest) =
     findPartialMatch toLowerCase password rest"
  by (induction before) (simp_all only: append.simps findPartialMatch_step, auto)

lemma findPartialMatch_Some_split:
  "findPartialMatch toLowerCase password corpus = Some c \<Longrightarrow>
     \<exists>before after. corpus = before @ c # after \<and> qualifies toLowerCase password c \<and>
       (\<forall>e \<in> set before. \<not> qualifies toLowerCase password e)"
proof (induction corpus)
  case Nil
  then show ?case by simp
next
  case (Cons x xs)
  show ?case
  proof (cases "qualifies toLowerCase password x")
    case True
    with Cons.prems have "c = x"
      by (simp only: findPartialMatch_step) simp
    with True have "x # xs = [] @ c # xs \<and> qualifies toLowerCase password c \<and>
       (\<forall>e \<in> set []. \<not> qualifies toLowerCase password e)"
      by simp
    then show ?thesis by blast
  next
    case False
    with Cons.prems have "findPartialMatch toLowerCase password xs = Some c"
      by (simp only: findPartialMatch_step) simp
    from Cons.IH [OF this] obtain before after where
      "xs = before @ c # after" "qualifies toLowerCase password c"
      "\<forall>e \<in> set before. \<not> qualifies toLowerCase password e"
      by blast
    with False have "x # xs = (x # before) @ c # after \<and> qualifies toLowerCase password c \<and>
       (\<forall>e \<in> set (x # before). \<not> qualifies toLowerCase password e)"
      by simp
    then show ?thesis by blast
  qed
qed

lemma findPartialMatch_at_first:
  assumes "qualifies toLowerCase password c"
    and "\<forall>e \<in> set before. \<not> qualifies toLowerCase password e"
  shows "findPartialMatch toLowerCase password (before @ c # after) = Some c"
  using assms by (simp only: findPartialMatch_skip findPartialMatch_step) simp

text \<open>
  C6. \<open>findPartialMatch\<close> returns the first entry, in the order of the corpus, that has
  at least five code units and occurs in the lowercased password: the entries before it
  do not qualify, and the entries after it have no influence. An entry of four code
  units or fewer is never returned. When no entry qualifies, in particular for the empty
  corpus, the result is null.
\<close>

theorem findPartialMatch_first_qualifying:
  "(findPartialMatch toLowerCase password corpus = Some c \<longleftrightarrow>
      (\<exists>before after. corpus = before @ c # after \<and> qualifies toLowerCase password c \<and>
         (\<forall>e \<in> set before. \<not> qualifies toLowerCase password e)))
   \<and> (qualifies toLowerCase password c \<and> (\<forall>e \<in> set before. \<not> qualifies toLowerCase password e)
        \<longrightarrow> findPartialMatch toLowerCase password (before @ c # after) = Some c)
   \<and> (\<forall>e. length e \<le> 4 \<longrightarrow> findPartialMatch toLowerCase password corpus \<noteq> Some e)
   \<and> (findPartialMatch toLowerCase password corpus = None \<longleftrightarrow>
        (\<forall>e \<in> set corpus. \<not> qualifies toLowerCase password e))
   \<and> findPartialMatch toLowerCase password [] = None"
proof (intro conjI)
  show "findPartialMatch toLowerCase password corpus = Some c \<longleftrightarrow>
      (\<exists>before after. corpus = before @ c # after \<and> qualifies toLowerCase password c \<and>
         (\<forall>e \<in> set before. \<not> qualifies toLowerCase password e))"
    using findPartialMatch_Some_split findPartialMatch_at_first by blast
next
  show "qualifies toLowerCase password c \<and> (\<forall>e \<in> set before. \<not> qualifies toLowerCase password e)
        \<longrightarrow> findPartialMatch toLowerCase password (before @ c # after) = Some c"
    using findPartialMatch_at_first by blast
next
  show "\<forall>e. length e \<le> 4 \<longrightarrow> findPartialMatch toLowerCase password corpus \<noteq> Some e"
  proof (intro allI impI notI)
    fix e :: jsstring
    assume short: "length e \<le> 4" and "findPartialMatch toLowerCase password corpus = Some e"
    then have "qualifies toLowerCase password e"
      using findPartialMatch_Some_split by blast
    with short show False
      by (simp add: qualifies_def)
  qed
next
  show "findPartialMatch toLowerCase password corpus = None \<longleftrightarrow>
        (\<forall>e \<in> set corpus. \<not> qualifies toLowerCase password e)"
    by (rule findPartialMatch_None_iff)
next
  show "findPartialMatch toLowerCase password [] = None"
    by simp
qed

text \<open>
  The password \<^verbatim>\<open>Hello1\<close> against the corpus \<^verbatim>\<open>ello\<close>, \<^verbatim>\<open>zzzzz\<close>, \<^verbatim>\<open>hello\<close>,
  \<^verbatim>\<open>ello1\<close>: the first entry is too short, the second does not occur, the third is
  returned though the fourth qualifies too. Against the first two entries alone the
  result is null.
\<close>

theorem findPartialMatch_first_qualifying_witness:
  "findPartialMatch asciiToLowerCase [0x48, 0x65, 0x6C, 0x6C, 0x6F, 0x31]
     [[0x65, 0x6C, 0x6C, 0x6F], [0x7A, 0x7A, 0x7A, 0x7A, 0x7A],
      [0x68, 0x65, 0x6C, 0x6C, 0x6F], [0x65, 0x6C, 0x6C, 0x6F, 0x31]]
     = Some [0x68, 0x65, 0x6C, 0x6C, 0x6F]
   \<and> findPartialMatch asciiToLowerCase [0x48, 0x65, 0x6C, 0x6C, 0x6F, 0x31]
     [[0x65, 0x6C, 0x6C, 0x6F], [0x7A, 0x7A, 0x7A, 0x7A, 0x7A]] = None"
proof -
  let ?pw = "[0x48, 0x65, 0x6C, 0x6C, 0x6F, 0x31] :: jsstring"
  have low: "asciiToLowerCase ?pw = [0x68, 0x65, 0x6C, 0x6C, 0x6F, 0x31]"
    by (simp add: asciiToLowerCase_def class_A_Z_def)
  have q: "qualifies asciiToLowerCase ?pw [0x68, 0x65, 0x6C, 0x6C, 0x6F]"
    unfolding qualifies_def low by (simp add: sublist_Cons_right)
  have n: "\<forall>e \<in> set [[0x65, 0x6C, 0x6C, 0x6F], [0x7A, 0x7A, 0x7A, 0x7A, 0x7A]].
      \<not> qualifies asciiToLowerCase ?pw e"
    unfolding qualifies_def low by (simp add: sublist_Cons_right)
  have split: "[[0x65, 0x6C, 0x6C, 0x6F], [0x7A, 0x7A, 0x7A, 0x7A, 0x7A],
      [0x68, 0x65, 0x6C, 0x6C, 0x6F], [0x65, 0x6C, 0x6C, 0x6F, 0x31 :: jschar]]
      = [[0x65, 0x6C, 0x6C, 0x6F], [0x7A, 0x7A, 0x7A, 0x7A, 0x7A]] @
        [0x68, 0x65, 0x6C, 0x6C, 0x6F] # [[0x65, 0x6C, 0x6C, 0x6F, 0x31]]"
    by simp
  have a: "findPartialMatch asciiToLowerCase ?pw
      ([[0x65, 0x6C, 0x6C, 0x6F], [0x7A, 0x7A, 0x7A, 0x7A, 0x7A]] @
        [0x68, 0x65, 0x6C, 0x6C, 0x6F] # [[0x65, 0x6C, 0x6C, 0x6F, 0x31]])
      = Some [0x68, 0x65, 0x6C, 0x6C, 0x6F]"
    using findPartialMatch_first_qualifying
      [of asciiToLowerCase ?pw _ "[0x68, 0x65, 0x6C, 0x6C, 0x6F]"
          "[[0x65, 0x6C, 0x6C, 0x6F], [0x7A, 0x7A, 0x7A, 0x7A, 0x7A]]"
          "[[0x65, 0x6C, 0x6C, 0x6F, 0x31]]"] q n
    by blast
  have b: "findPartialMatch asciiToLowerCase ?pw
     [[0x65, 0x6C, 0x6C, 0x6F], [0x7A, 0x7A, 0x7A, 0x7A, 0x7A]] = None"
    using findPartialMatch_first_qualifying
      [of asciiToLowerCase ?pw "[[0x65, 0x6C, 0x6C, 0x6F], [0x7A, 0x7A, 0x7A, 0x7A, 0x7A]]"] n
    by blast
  from a b show ?thesis
    unfolding split by (rule conjI)
qed

text \<open>
  C10. An entry with an ASCII uppercase letter is never returned: only the password is
  lowercased, the entry is compared as it is. The lowercased password has no ASCII
  uppercase letter, which is what the engine's \<^verbatim>\<open>toLowerCase\<close> provides and what the
  theorem takes as its hypothesis on the parameter \<open>toLowerCase\<close>.
\<close>

theorem findPartialMatch_never_uppercase_entry:
  "containsClass uppercaseLetters entry \<Longrightarrow>
   \<not> containsClass uppercaseLetters (toLowerCase password) \<Longrightarrow>
   findPartialMatch toLowerCase password corpus \<noteq> Some entry"
proof
  assume up: "containsClass uppercaseLetters entry"
    and low: "\<not> containsClass uppercaseLetters (toLowerCase password)"
    and res: "findPartialMatch toLowerCase password corpus = Some entry"
  from res have "qualifies toLowerCase password entry"
    using findPartialMatch_Some_split by blast
  then have "sublist entry (toLowerCase password)"
    by (simp add: qualifies_def)
  then have "set entry \<subseteq> set (toLowerCase password)"
    by (rule set_mono_sublist)
  with up have "containsClass uppercaseLetters (toLowerCase password)"
    by (auto simp: containsClass_def)
  with low show False ..
qed

text \<open>
  The password \<^verbatim>\<open>Hello1\<close> against the corpus \<^verbatim>\<open>Hello\<close>, \<^verbatim>\<open>hello\<close>: the entry
  \<^verbatim>\<open>Hello\<close> is not the result.
\<close>

theorem findPartialMatch_never_uppercase_entry_witness:
  "containsClass uppercaseLetters [0x48, 0x65, 0x6C, 0x6C, 0x6F]
   \<and> \<not> containsClass uppercaseLetters (asciiToLowerCase [0x48, 0x65, 0x6C, 0x6C, 0x6F, 0x31])
   \<and> findPartialMatch asciiToLowerCase [0x48, 0x65, 0x6C, 0x6C, 0x6F, 0x31]
        [[0x48, 0x65, 0x6C, 0x6C, 0x6F], [0x68, 0x65, 0x6C, 0x6C, 0x6F]]
      \<noteq> Some [0x48, 0x65, 0x6C, 0x6C, 0x6F]"
proof -
  have up: "containsClass uppercaseLetters [0x48, 0x65, 0x6C, 0x6C, 0x6F]"
    by (simp add: containsClass_def uppercaseLetters_def)
  have low: "\<not> containsClass uppercaseLetters
      (asciiToLowerCase [0x48, 0x65, 0x6C, 0x6C, 0x6F, 0x31])"
    by (simp add: containsClass_def uppercaseLetters_def asciiToLowerCase_def class_A_Z_def)
  from up low show ?thesis
    using findPartialMatch_never_uppercase_entry
      [of "[0x48, 0x65, 0x6C, 0x6C, 0x6F]" asciiToLowerCase
          "[0x48, 0x65, 0x6C, 0x6C, 0x6F, 0x31]"
          "[[0x48, 0x65, 0x6C, 0x6C, 0x6F], [0x68, 0x65, 0x6C, 0x6C, 0x6F]]"]
    by blast
qed

section \<open>Properties of the request handler\<close>



lemma findPartialMatch_truthy:
  "findPartialMatch toLowerCase password corpus = Some w \<Longrightarrow> \<not> falsy (Some w)"
proof -
  assume "findPartialMatch toLowerCase password corpus = Some w"
  then have "qualifies toLowerCase password w"
    using findPartialMatch_Some_split by blast
  then have "5 \<le> length w" by (simp add: qualifies_def)
  then show ?thesis by (auto simp: falsy_def)
qed

lemma evaluateHandler_valid:
  "password \<noteq> [] \<Longrightarrow>
     evaluateHandler toLowerCase commonPasswords (JsonBody (JSString password)) =
     Inr (evaluatePassword toLowerCase commonPasswords password)"
  by (simp add: evaluateHandler_def)

text \<open>
  C5. For a valid password the handler answers 200, and: when the password is an entry
  of the corpus, \<open>findPartialMatch\<close> is not called, \<open>isCommon\<close> is true,
  \<open>containedCommonWord\<close> is null, the strength is \<open>MuyDebilComun\<close> and the crack time
  is \<open>InstantaneoFiltraciones\<close>; when it is not an entry, \<open>findPartialMatch\<close> is
  called, and if it returns a word, the strength is \<open>DebilPredecible\<close> and the crack
  time is the estimate from the entropy; when neither matches, strength and crack time
  are the values computed from the entropy.
\<close>

theorem evaluateHandler_case_analysis:
  "password \<noteq> [] \<Longrightarrow>
   (\<exists>calls ev tips.
      evaluateHandler toLowerCase commonPasswords (JsonBody (JSString password)) =
        Inr (calls, \<lparr>status = 200, body = EvaluationBody ev tips\<rparr>)
      \<and> (password \<in> set commonPasswords \<longrightarrow>
            FindPartialMatch \<notin> set calls \<and> isCommon ev \<and> containedCommonWord ev = None
            \<and> strength ev = MuyDebilComun
            \<and> estimatedCrackTime tips = InstantaneoFiltraciones)
      \<and> (password \<notin> set commonPasswords \<longrightarrow>
            FindPartialMatch \<in> set calls \<and>
            (\<forall>w. findPartialMatch toLowerCase password commonPasswords = Some w \<longrightarrow>
               \<not> isCommon ev \<and> containedCommonWord ev = Some w
               \<and> strength ev = DebilPredecible
               \<and> estimatedCrackTime tips =
                   Estimado (calculateCrackTime
                     (calculateEntropy (calculateL (Some password)) (calculateN (Some password))))))
      \<and> (password \<notin> set commonPasswords
           \<and> findPartialMatch toLowerCase password commonPasswords = None \<longrightarrow>
            \<not> isCommon ev \<and> containedCommonWord ev = None
            \<and> strength ev = checkPasswordStrength
                 (calculateEntropy (calculateL (Some password)) (calculateN (Some password)))
            \<and> estimatedCrackTime tips =
                Estimado (calculateCrackTime
                  (calculateEntropy (calculateL (Some password)) (calculateN (Some password))))))"
proof -
  assume ne: "password \<noteq> []"
  consider (exact) "password \<in> set commonPasswords"
    | (partial) w where "password \<notin> set commonPasswords"
        "findPartialMatch toLowerCase password commonPasswords = Some w"
    | (none) "password \<notin> set commonPasswords"
        "findPartialMatch toLowerCase password commonPasswords = None"
    by (cases "findPartialMatch toLowerCase password commonPasswords") auto
  then show ?thesis
  proof cases
    case exact
    then show ?thesis
      by (simp add: evaluateHandler_valid [OF ne] evaluatePassword_def Let_def)
  next
    case partial
    from partial(2) have "\<not> falsy (Some w)"
      by (rule findPartialMatch_truthy)
    with partial show ?thesis
      by (simp add: evaluateHandler_valid [OF ne] evaluatePassword_def Let_def)
  next
    case none
    then show ?thesis
      by (simp add: evaluateHandler_valid [OF ne] evaluatePassword_def Let_def falsy_def)
  qed
qed

text \<open>
  Against the corpus \<^verbatim>\<open>hello\<close>, \<^verbatim>\<open>12345\<close>: the password \<^verbatim>\<open>hello\<close> is an entry,
  \<^verbatim>\<open>Hello1\<close> is not an entry and contains \<^verbatim>\<open>hello\<close> once lowercased, \<^verbatim>\<open>abc\<close>
  matches nothing.
\<close>

theorem evaluateHandler_case_analysis_witness:
  "(let corpus = [[0x68, 0x65, 0x6C, 0x6C, 0x6F], [0x31, 0x32, 0x33, 0x34, 0x35]];
        exact = projr (evaluateHandler asciiToLowerCase corpus
                    (JsonBody (JSString [0x68, 0x65, 0x6C, 0x6C, 0x6F])));
        partial = projr (evaluateHandler asciiToLowerCase corpus
                    (JsonBody (JSString [0x48, 0x65, 0x6C, 0x6C, 0x6F, 0x31])));
        none = projr (evaluateHandler asciiToLowerCase corpus
                    (JsonBody (JSString [0x61, 0x62, 0x63])))
    in FindPartialMatch \<notin> set (fst exact)
     \<and> status (snd exact) = 200
     \<and> isCommon (evaluation (body (snd exact)))
     \<and> containedCommonWord (evaluation (body (snd exact))) = None
     \<and> strength (evaluation (body (snd exact))) = MuyDebilComun
     \<and> estimatedCrackTime (security_tips (body (snd exact))) = InstantaneoFiltraciones
     \<and> \<not> isCommon (evaluation (body (snd partial)))
     \<and> containedCommonWord (evaluation (body (snd partial))) = Some [0x68, 0x65, 0x6C, 0x6C, 0x6F]
     \<and> strength (evaluation (body (snd partial))) = DebilPredecible
     \<and> estimatedCrackTime (security_tips (body (snd partial))) =
         Estimado (calculateCrackTime (calculateEntropy
           (calculateL (Some [0x48, 0x65, 0x6C, 0x6C, 0x6F, 0x31]))
           (calculateN (Some [0x48, 0x65, 0x6C, 0x6C, 0x6F, 0x31]))))
     \<and> \<not> isCommon (evaluation (body (snd none)))
     \<and> containedCommonWord (evaluation (body (snd none))) = None
     \<and> strength (evaluation (body (snd none))) =
         checkPasswordStrength (calculateEntropy
           (calculateL (Some [0x61, 0x62, 0x63])) (calculateN (Some [0x61, 0x62, 0x63])))
     \<and> estimatedCrackTime (security_tips (body (snd none))) =
         Estimado (calculateCrackTime (calculateEntropy
           (calculateL (Some [0x61, 0x62, 0x63])) (calculateN (Some [0x61, 0x62, 0x63])))))"
proof -
  define corpus :: "jsstring list"
    where "corpus = [[0x68, 0x65, 0x6C, 0x6C, 0x6F], [0x31, 0x32, 0x33, 0x34, 0x35]]"
  define hello :: jsstring where "hello = [0x68, 0x65, 0x6C, 0x6C, 0x6F]"
  define Hello1 :: jsstring where "Hello1 = [0x48, 0x65, 0x6C, 0x6C, 0x6F, 0x31]"
  define abc :: jsstring where "abc = [0x61, 0x62, 0x63]"
  have ne: "hello \<noteq> []" "Hello1 \<noteq> []" "abc \<noteq> []"
    by (simp_all add: hello_def Hello1_def abc_def)
  have mem: "hello \<in> set corpus" "Hello1 \<notin> set corpus" "abc \<notin> set corpus"
    by (simp_all add: hello_def Hello1_def abc_def corpus_def)
  have found: "findPartialMatch asciiToLowerCase Hello1 corpus = Some hello"
    by (simp add: hello_def Hello1_def corpus_def MIN_LENGTH_def asciiToLowerCase_def
        class_A_Z_def)
  have nomatch: "findPartialMatch asciiToLowerCase abc corpus = None"
    by (simp add: abc_def corpus_def MIN_LENGTH_def asciiToLowerCase_def class_A_Z_def)
  from evaluateHandler_case_analysis [OF ne(1), of asciiToLowerCase corpus] mem(1)
  obtain calls1 ev1 tips1 where
    h1: "evaluateHandler asciiToLowerCase corpus (JsonBody (JSString hello)) =
        Inr (calls1, \<lparr>status = 200, body = EvaluationBody ev1 tips1\<rparr>)"
    and p1: "FindPartialMatch \<notin> set calls1" "isCommon ev1" "containedCommonWord ev1 = None"
      "strength ev1 = MuyDebilComun" "estimatedCrackTime tips1 = InstantaneoFiltraciones"
    by blast
  from evaluateHandler_case_analysis [OF ne(2), of asciiToLowerCase corpus] mem(2) found
  obtain calls2 ev2 tips2 where
    h2: "evaluateHandler asciiToLowerCase corpus (JsonBody (JSString Hello1)) =
        Inr (calls2, \<lparr>status = 200, body = EvaluationBody ev2 tips2\<rparr>)"
    and p2: "\<not> isCommon ev2" "containedCommonWord ev2 = Some hello"
      "strength ev2 = DebilPredecible"
      "estimatedCrackTime tips2 = Estimado (calculateCrackTime
         (calculateEntropy (calculateL (Some Hello1)) (calculateN (Some Hello1))))"
    by blast
  from evaluateHandler_case_analysis [OF ne(3), of asciiToLowerCase corpus] mem(3) nomatch
  obtain calls3 ev3 tips3 where
    h3: "evaluateHandler asciiToLowerCase corpus (JsonBody (JSString abc)) =
        Inr (calls3, \<lparr>status = 200, body = EvaluationBody ev3 tips3\<rparr>)"
    and p3: "\<not> isCommon ev3" "containedCommonWord ev3 = None"
      "strength ev3 = checkPasswordStrength
         (calculateEntropy (calculateL (Some abc)) (calculateN (Some abc)))"
      "estimatedCrackTime tips3 = Estimado (calculateCrackTime
         (calculateEntropy (calculateL (Some abc)) (calculateN (Some abc))))"
    by blast
  from h1 h2 h3 p1 p2 p3 show ?thesis
    unfolding Let_def corpus_def hello_def Hello1_def abc_def
    by simp
qed

end
